theory Spec2Isabelle
  imports Main "HOL-Library.Sublist"
begin

section \<open>The synthesis driver \<^verbatim>\<open>main.py\<close>\<close>

text \<open>
  The script is straight-line module-level code over two imported libraries:
  \<^verbatim>\<open>
  import torchaudio as ta
  from chatterbox.tts import ChatterboxTTS

  model = ChatterboxTTS.from_pretrained(device="cuda")

  text = "Suhhhhhhhhhhhhh"
  wav = model.generate(text)
  ta.save("test-1.wav", wav, model.sr)

  AUDIO_PROMPT_PATH="sample.wav"
  wav = model.generate(text, audio_prompt_path=AUDIO_PROMPT_PATH)
  ta.save("test-2.wav", wav, model.sr)

  AUDIO_PROMPT_PATH="dad_sample.wav"
  wav = model.generate(text, audio_prompt_path=AUDIO_PROMPT_PATH)
  ta.save("test-3.wav", wav, model.sr)
  \<close>
  The libraries are not part of the repository. They are taken as parameters: the two
  import statements bind the names that the record \<open>collaborators\<close> holds, and a run
  is what follows once they are bound. Everything outside the script (the accelerator,
  the file system, the process context, the state of the model object) is a world of
  an arbitrary type \<open>'w\<close>; a library call maps the world to its result and the world it
  leaves behind. A raised exception is the result \<open>Inl e\<close>; the script has no
  \<^verbatim>\<open>try\<close>, so an exception of any call ends it.
\<close>

subsection \<open>The imported names\<close>

record ('w, 'm, 'v, 'r, 'e) collaborators =
  from_pretrained :: "string \<Rightarrow> 'w \<Rightarrow> ('e + 'm) \<times> 'w"
  generate :: "'m \<Rightarrow> string \<Rightarrow> string option \<Rightarrow> 'w \<Rightarrow> ('e + 'v) \<times> 'w"
  sr :: "'m \<Rightarrow> 'w \<Rightarrow> 'r"
  save :: "string \<Rightarrow> 'v \<Rightarrow> 'r \<Rightarrow> 'w \<Rightarrow> ('e + unit) \<times> 'w"

text \<open>
  \<open>from_pretrained env device\<close> is \<^verbatim>\<open>ChatterboxTTS.from_pretrained(device=device)\<close>;
  \<open>generate env model text prompt\<close> is \<^verbatim>\<open>model.generate(text, audio_prompt_path=prompt)\<close>,
  where the omitted keyword argument of the first call is \<open>None\<close>;
  \<open>sr env model w\<close> is the attribute read \<^verbatim>\<open>model.sr\<close> in the world \<open>w\<close>, an attribute
  that every handle has, so that the read changes nothing and returns;
  \<open>save env path wav rate\<close> is \<^verbatim>\<open>ta.save(path, wav, rate)\<close>, which returns \<^verbatim>\<open>None\<close>.
\<close>

subsection \<open>The log of library calls\<close>

datatype ('m, 'v, 'r) call =
    is_Load: Load (device_of: string)
  | is_Generate: Generate (handle_of: 'm) (text_of: string) (prompt_of: "string option")
  | is_Save: Save (path_of: string) (wav_of: 'v) (rate_of: 'r)

datatype ('e, 'm, 'v) reply =
    is_Raised: Raised 'e
  | is_Returned_model: Returned_model 'm
  | is_Returned_wav: Returned_wav 'v
  | is_Returned_none: Returned_none

record ('w, 'm, 'v, 'r, 'e) event =
  call :: "('m, 'v, 'r) call"
  before :: 'w
  reply :: "('e, 'm, 'v) reply"
  after :: 'w

record ('w, 'm, 'v, 'r, 'e) state =
  world :: 'w
  trace :: "('w, 'm, 'v, 'r, 'e) event list"

text \<open>
  \<open>perform c ret f\<close> runs the library call \<open>f\<close> in the current world, moves to the world
  it leaves and appends one event to the log: the call \<open>c\<close>, the world before, what came
  back (the exception, or the value under \<open>ret\<close>) and the world after.
\<close>

definition perform ::
  "('m, 'v, 'r) call \<Rightarrow> ('a \<Rightarrow> ('e, 'm, 'v) reply) \<Rightarrow> ('w \<Rightarrow> ('e + 'a) \<times> 'w) \<Rightarrow>
   ('w, 'm, 'v, 'r, 'e) state \<Rightarrow> ('e + 'a) \<times> ('w, 'm, 'v, 'r, 'e) state" where
  "perform c ret f s =
     (case f (world s) of
        (res, w') \<Rightarrow>
          (res,
           \<lparr>world = w',
            trace = trace s @
              [\<lparr>call = c, before = world s,
                reply = (case res of Inl e \<Rightarrow> Raised e | Inr a \<Rightarrow> ret a),
                after = w'\<rparr>]\<rparr>))"

definition from_pretrained_call ::
  "('w, 'm, 'v, 'r, 'e) collaborators \<Rightarrow> string \<Rightarrow>
   ('w, 'm, 'v, 'r, 'e) state \<Rightarrow> ('e + 'm) \<times> ('w, 'm, 'v, 'r, 'e) state" where
  "from_pretrained_call env device =
     perform (Load device) Returned_model (from_pretrained env device)"

definition generate_call ::
  "('w, 'm, 'v, 'r, 'e) collaborators \<Rightarrow> 'm \<Rightarrow> string \<Rightarrow> string option \<Rightarrow>
   ('w, 'm, 'v, 'r, 'e) state \<Rightarrow> ('e + 'v) \<times> ('w, 'm, 'v, 'r, 'e) state" where
  "generate_call env model text prompt =
     perform (Generate model text prompt) Returned_wav (generate env model text prompt)"

definition save_call ::
  "('w, 'm, 'v, 'r, 'e) collaborators \<Rightarrow> string \<Rightarrow> 'v \<Rightarrow> 'r \<Rightarrow>
   ('w, 'm, 'v, 'r, 'e) state \<Rightarrow> ('e + unit) \<times> ('w, 'm, 'v, 'r, 'e) state" where
  "save_call env path wav rate =
     perform (Save path wav rate) (\<lambda>_. Returned_none) (save env path wav rate)"

subsection \<open>The script\<close>

text \<open>
  One \<open>case\<close> per statement that calls a library; the \<open>Inl\<close> branch is the uncaught
  exception, which ends the script with the state reached. The assignments to
  \<^verbatim>\<open>text\<close> and \<^verbatim>\<open>AUDIO_PROMPT_PATH\<close> are \<open>let\<close>s, and the rebinding of \<^verbatim>\<open>wav\<close> is the
  rebinding of the pattern variable. The third argument of \<^verbatim>\<open>ta.save\<close> is read from
  the model in the world that the preceding \<^verbatim>\<open>generate\<close> left.
\<close>

definition main ::
  "('w, 'm, 'v, 'r, 'e) collaborators \<Rightarrow> ('w, 'm, 'v, 'r, 'e) state \<Rightarrow>
   ('e + unit) \<times> ('w, 'm, 'v, 'r, 'e) state" where
  "main env s0 =
     (case from_pretrained_call env ''cuda'' s0 of
        (Inl e, s1) \<Rightarrow> (Inl e, s1)
      | (Inr model, s1) \<Rightarrow>
     (let text = ''Suhhhhhhhhhhhhh'' in
      case generate_call env model text None s1 of
        (Inl e, s2) \<Rightarrow> (Inl e, s2)
      | (Inr wav, s2) \<Rightarrow>
     (case save_call env ''test-1.wav'' wav (sr env model (world s2)) s2 of
        (Inl e, s3) \<Rightarrow> (Inl e, s3)
      | (Inr _, s3) \<Rightarrow>
     (let AUDIO_PROMPT_PATH = ''sample.wav'' in
      case generate_call env model text (Some AUDIO_PROMPT_PATH) s3 of
        (Inl e, s4) \<Rightarrow> (Inl e, s4)
      | (Inr wav, s4) \<Rightarrow>
     (case save_call env ''test-2.wav'' wav (sr env model (world s4)) s4 of
        (Inl e, s5) \<Rightarrow> (Inl e, s5)
      | (Inr _, s5) \<Rightarrow>
     (let AUDIO_PROMPT_PATH = ''dad_sample.wav'' in
      case generate_call env model text (Some AUDIO_PROMPT_PATH) s5 of
        (Inl e, s6) \<Rightarrow> (Inl e, s6)
      | (Inr wav, s6) \<Rightarrow>
     (case save_call env ''test-3.wav'' wav (sr env model (world s6)) s6 of
        (Inl e, s7) \<Rightarrow> (Inl e, s7)
      | (Inr _, s7) \<Rightarrow> (Inr (), s7))))))))"

text \<open>A run of the script on a host: the world the process starts in, and an empty log.\<close>

definition run ::
  "('w, 'm, 'v, 'r, 'e) collaborators \<Rightarrow> 'w \<Rightarrow>
   ('e + unit) \<times> ('w, 'm, 'v, 'r, 'e) state" where
  "run env w = main env \<lparr>world = w, trace = []\<rparr>"

definition outcome :: "('w, 'm, 'v, 'r, 'e) collaborators \<Rightarrow> 'w \<Rightarrow> 'e + unit" where
  "outcome env w = fst (run env w)"

definition final_world :: "('w, 'm, 'v, 'r, 'e) collaborators \<Rightarrow> 'w \<Rightarrow> 'w" where
  "final_world env w = world (snd (run env w))"

definition events ::
  "('w, 'm, 'v, 'r, 'e) collaborators \<Rightarrow> 'w \<Rightarrow> ('w, 'm, 'v, 'r, 'e) event list" where
  "events env w = trace (snd (run env w))"

definition calls ::
  "('w, 'm, 'v, 'r, 'e) collaborators \<Rightarrow> 'w \<Rightarrow> ('m, 'v, 'r) call list" where
  "calls env w = map call (events env w)"

subsection \<open>What the claims speak about\<close>

text \<open>
  An event is faithful when it records what the library did: the reply and the world
  after are those that the call gives in the world before.
\<close>

definition faithful ::
  "('w, 'm, 'v, 'r, 'e) collaborators \<Rightarrow> ('w, 'm, 'v, 'r, 'e) event \<Rightarrow> bool" where
  "faithful env ev =
     (case call ev of
        Load device \<Rightarrow>
          (case from_pretrained env device (before ev) of
             (Inl e, w') \<Rightarrow> reply ev = Raised e \<and> after ev = w'
           | (Inr m, w') \<Rightarrow> reply ev = Returned_model m \<and> after ev = w')
      | Generate model text prompt \<Rightarrow>
          (case generate env model text prompt (before ev) of
             (Inl e, w') \<Rightarrow> reply ev = Raised e \<and> after ev = w'
           | (Inr v, w') \<Rightarrow> reply ev = Returned_wav v \<and> after ev = w')
      | Save path wav rate \<Rightarrow>
          (case save env path wav rate (before ev) of
             (Inl e, w') \<Rightarrow> reply ev = Raised e \<and> after ev = w'
           | (Inr _, w') \<Rightarrow> reply ev = Returned_none \<and> after ev = w'))"







subsection \<open>A stub of the two libraries\<close>

text \<open>
  A small stand-in for the libraries, on which the script can be run: a host has a command
  line, an environment, possibly a CUDA device, a directory of audio files and a flag
  that says whether the directory is writable. The model handle is its sample rate, a
  waveform is a list of samples. The errors are those the specification names.
\<close>

datatype error = ModelLoadError | SynthesisError | AudioPromptError | IOError

record host =
  argv :: "string list"
  environ :: "(string \<times> string) list"
  cuda :: bool
  files :: "(string \<times> nat list) list"
  writable :: bool

definition stub :: "(host, nat, nat list, nat, error) collaborators" where
  "stub =
     \<lparr>from_pretrained = (\<lambda>device h.
        if device = ''cuda'' \<and> \<not> cuda h then (Inl ModelLoadError, h) else (Inr 24000, h)),
      generate = (\<lambda>model text prompt h.
        if text = [] then (Inl SynthesisError, h)
        else (case prompt of
                None \<Rightarrow> (Inr [length text], h)
              | Some p \<Rightarrow>
                  (case map_of (files h) p of
                     None \<Rightarrow> (Inl AudioPromptError, h)
                   | Some ref \<Rightarrow> (Inr (length text # ref), h)))),
      sr = (\<lambda>model h. model),
      save = (\<lambda>path wav rate h.
        if writable h then (Inr (), h\<lparr>files := (path, rate # wav) # files h\<rparr>)
        else (Inl IOError, h))\<rparr>"

definition studio :: host where
  "studio =
     \<lparr>argv = [''main.py''], environ = [], cuda = True,
      files = [(''sample.wav'', [1, 2]), (''dad_sample.wav'', [3])], writable = True\<rparr>"

definition studio_other_context :: host where
  "studio_other_context =
     \<lparr>argv = [''main.py'', ''--device'', ''cpu''], environ = [(''TTS_DEVICE'', ''cpu'')],
      cuda = True,
      files = [(''sample.wav'', [1, 2]), (''dad_sample.wav'', [3])], writable = True\<rparr>"

definition laptop :: host where
  "laptop =
     \<lparr>argv = [''main.py''], environ = [], cuda = False,
      files = [(''sample.wav'', [1, 2]), (''dad_sample.wav'', [3])], writable = True\<rparr>"

definition studio_without_dad :: host where
  "studio_without_dad =
     \<lparr>argv = [''main.py''], environ = [], cuda = True,
      files = [(''sample.wav'', [1, 2])], writable = True\<rparr>"


subsection \<open>Sequencing, and runs that cannot be told apart\<close>




subsection \<open>Libraries that leave other files alone\<close>

text \<open>
  What the claim about partial results needs of the libraries: seen through an
  observation \<open>file\<close> of the world (what is stored under a path), synthesis leaves
  every file as it is, and a persist call leaves every file but the one at its own path
  as it is, whether the call returns or raises. Nothing is asked of loading, which may
  well store what it fetches.
\<close>

definition keeps_files ::
  "('w \<Rightarrow> string \<Rightarrow> 'c) \<Rightarrow> ('w, 'm, 'v, 'r, 'e) collaborators \<Rightarrow> bool" where
  "keeps_files file env =
     ((\<forall>m t p h. file (snd (generate env m t p h)) = file h) \<and>
      (\<forall>p v r h q. q \<noteq> p \<longrightarrow> file (snd (save env p v r h)) q = file h q))"

section \<open>The runs of the script\<close>

lemmas run_defs =
  Let_def run_def main_def from_pretrained_call_def generate_call_def save_call_def
  perform_def

lemmas obs_defs = outcome_def final_world_def events_def calls_def

text \<open>
  A run ends in one of eight ways: one of the seven library calls raises, or all seven
  return. Each way fixes the result, the final world and the whole log.
\<close>

lemma run_cases [case_names load_raises generate1_raises save1_raises generate2_raises
    save2_raises generate3_raises save3_raises completes]:
  obtains
    (load_raises) e w1 where
      "from_pretrained env ''cuda'' w = (Inl e, w1)"
      "run env w = (Inl e, \<lparr>world = w1, trace =
        [\<lparr>call = Load ''cuda'', before = w, reply = Raised e, after = w1\<rparr>]\<rparr>)"
  | (generate1_raises) m w1 e w2 where
      "from_pretrained env ''cuda'' w = (Inr m, w1)"
      "generate env m ''Suhhhhhhhhhhhhh'' None w1 = (Inl e, w2)"
      "run env w = (Inl e, \<lparr>world = w2, trace =
        [\<lparr>call = Load ''cuda'', before = w, reply = Returned_model m, after = w1\<rparr>,
         \<lparr>call = Generate m ''Suhhhhhhhhhhhhh'' None, before = w1, reply = Raised e, after = w2\<rparr>]\<rparr>)"
  | (save1_raises) m w1 v1 w2 e w3 where
      "from_pretrained env ''cuda'' w = (Inr m, w1)"
      "generate env m ''Suhhhhhhhhhhhhh'' None w1 = (Inr v1, w2)"
      "save env ''test-1.wav'' v1 (sr env m w2) w2 = (Inl e, w3)"
      "run env w = (Inl e, \<lparr>world = w3, trace =
        [\<lparr>call = Load ''cuda'', before = w, reply = Returned_model m, after = w1\<rparr>,
         \<lparr>call = Generate m ''Suhhhhhhhhhhhhh'' None, before = w1, reply = Returned_wav v1, after = w2\<rparr>,
         \<lparr>call = Save ''test-1.wav'' v1 (sr env m w2), before = w2, reply = Raised e, after = w3\<rparr>]\<rparr>)"
  | (generate2_raises) m w1 v1 w2 w3 e w4 where
      "from_pretrained env ''cuda'' w = (Inr m, w1)"
      "generate env m ''Suhhhhhhhhhhhhh'' None w1 = (Inr v1, w2)"
      "save env ''test-1.wav'' v1 (sr env m w2) w2 = (Inr (), w3)"
      "generate env m ''Suhhhhhhhhhhhhh'' (Some ''sample.wav'') w3 = (Inl e, w4)"
      "run env w = (Inl e, \<lparr>world = w4, trace =
        [\<lparr>call = Load ''cuda'', before = w, reply = Returned_model m, after = w1\<rparr>,
         \<lparr>call = Generate m ''Suhhhhhhhhhhhhh'' None, before = w1, reply = Returned_wav v1, after = w2\<rparr>,
         \<lparr>call = Save ''test-1.wav'' v1 (sr env m w2), before = w2, reply = Returned_none, after = w3\<rparr>,
         \<lparr>call = Generate m ''Suhhhhhhhhhhhhh'' (Some ''sample.wav''), before = w3, reply = Raised e, after = w4\<rparr>]\<rparr>)"
  | (save2_raises) m w1 v1 w2 w3 v2 w4 e w5 where
      "from_pretrained env ''cuda'' w = (Inr m, w1)"
      "generate env m ''Suhhhhhhhhhhhhh'' None w1 = (Inr v1, w2)"
      "save env ''test-1.wav'' v1 (sr env m w2) w2 = (Inr (), w3)"
      "generate env m ''Suhhhhhhhhhhhhh'' (Some ''sample.wav'') w3 = (Inr v2, w4)"
      "save env ''test-2.wav'' v2 (sr env m w4) w4 = (Inl e, w5)"
      "run env w = (Inl e, \<lparr>world = w5, trace =
        [\<lparr>call = Load ''cuda'', before = w, reply = Returned_model m, after = w1\<rparr>,
         \<lparr>call = Generate m ''Suhhhhhhhhhhhhh'' None, before = w1, reply = Returned_wav v1, after = w2\<rparr>,
         \<lparr>call = Save ''test-1.wav'' v1 (sr env m w2), before = w2, reply = Returned_none, after = w3\<rparr>,
         \<lparr>call = Generate m ''Suhhhhhhhhhhhhh'' (Some ''sample.wav''), before = w3, reply = Returned_wav v2, after = w4\<rparr>,
         \<lparr>call = Save ''test-2.wav'' v2 (sr env m w4), before = w4, reply = Raised e, after = w5\<rparr>]\<rparr>)"
  | (generate3_raises) m w1 v1 w2 w3 v2 w4 w5 e w6 where
      "from_pretrained env ''cuda'' w = (Inr m, w1)"
      "generate env m ''Suhhhhhhhhhhhhh'' None w1 = (Inr v1, w2)"
      "save env ''test-1.wav'' v1 (sr env m w2) w2 = (Inr (), w3)"
      "generate env m ''Suhhhhhhhhhhhhh'' (Some ''sample.wav'') w3 = (Inr v2, w4)"
      "save env ''test-2.wav'' v2 (sr env m w4) w4 = (Inr (), w5)"
      "generate env m ''Suhhhhhhhhhhhhh'' (Some ''dad_sample.wav'') w5 = (Inl e, w6)"
      "run env w = (Inl e, \<lparr>world = w6, trace =
        [\<lparr>call = Load ''cuda'', before = w, reply = Returned_model m, after = w1\<rparr>,
         \<lparr>call = Generate m ''Suhhhhhhhhhhhhh'' None, before = w1, reply = Returned_wav v1, after = w2\<rparr>,
         \<lparr>call = Save ''test-1.wav'' v1 (sr env m w2), before = w2, reply = Returned_none, after = w3\<rparr>,
         \<lparr>call = Generate m ''Suhhhhhhhhhhhhh'' (Some ''sample.wav''), before = w3, reply = Returned_wav v2, after = w4\<rparr>,
         \<lparr>call = Save ''test-2.wav'' v2 (sr env m w4), before = w4, reply = Returned_none, after = w5\<rparr>,
         \<lparr>call = Generate m ''Suhhhhhhhhhhhhh'' (Some ''dad_sample.wav''), before = w5, reply = Raised e, after = w6\<rparr>]\<rparr>)"
  | (save3_raises) m w1 v1 w2 w3 v2 w4 w5 v3 w6 e w7 where
      "from_pretrained env ''cuda'' w = (Inr m, w1)"
      "generate env m ''Suhhhhhhhhhhhhh'' None w1 = (Inr v1, w2)"
      "save env ''test-1.wav'' v1 (sr env m w2) w2 = (Inr (), w3)"
      "generate env m ''Suhhhhhhhhhhhhh'' (Some ''sample.wav'') w3 = (Inr v2, w4)"
      "save env ''test-2.wav'' v2 (sr env m w4) w4 = (Inr (), w5)"
      "generate env m ''Suhhhhhhhhhhhhh'' (Some ''dad_sample.wav'') w5 = (Inr v3, w6)"
      "save env ''test-3.wav'' v3 (sr env m w6) w6 = (Inl e, w7)"
      "run env w = (Inl e, \<lparr>world = w7, trace =
        [\<lparr>call = Load ''cuda'', before = w, reply = Returned_model m, after = w1\<rparr>,
         \<lparr>call = Generate m ''Suhhhhhhhhhhhhh'' None, before = w1, reply = Returned_wav v1, after = w2\<rparr>,
         \<lparr>call = Save ''test-1.wav'' v1 (sr env m w2), before = w2, reply = Returned_none, after = w3\<rparr>,
         \<lparr>call = Generate m ''Suhhhhhhhhhhhhh'' (Some ''sample.wav''), before = w3, reply = Returned_wav v2, after = w4\<rparr>,
         \<lparr>call = Save ''test-2.wav'' v2 (sr env m w4), before = w4, reply = Returned_none, after = w5\<rparr>,
         \<lparr>call = Generate m ''Suhhhhhhhhhhhhh'' (Some ''dad_sample.wav''), before = w5, reply = Returned_wav v3, after = w6\<rparr>,
         \<lparr>call = Save ''test-3.wav'' v3 (sr env m w6), before = w6, reply = Raised e, after = w7\<rparr>]\<rparr>)"
  | (completes) m w1 v1 w2 w3 v2 w4 w5 v3 w6 w7 where
      "from_pretrained env ''cuda'' w = (Inr m, w1)"
      "generate env m ''Suhhhhhhhhhhhhh'' None w1 = (Inr v1, w2)"
      "save env ''test-1.wav'' v1 (sr env m w2) w2 = (Inr (), w3)"
      "generate env m ''Suhhhhhhhhhhhhh'' (Some ''sample.wav'') w3 = (Inr v2, w4)"
      "save env ''test-2.wav'' v2 (sr env m w4) w4 = (Inr (), w5)"
      "generate env m ''Suhhhhhhhhhhhhh'' (Some ''dad_sample.wav'') w5 = (Inr v3, w6)"
      "save env ''test-3.wav'' v3 (sr env m w6) w6 = (Inr (), w7)"
      "run env w = (Inr (), \<lparr>world = w7, trace =
        [\<lparr>call = Load ''cuda'', before = w, reply = Returned_model m, after = w1\<rparr>,
         \<lparr>call = Generate m ''Suhhhhhhhhhhhhh'' None, before = w1, reply = Returned_wav v1, after = w2\<rparr>,
         \<lparr>call = Save ''test-1.wav'' v1 (sr env m w2), before = w2, reply = Returned_none, after = w3\<rparr>,
         \<lparr>call = Generate m ''Suhhhhhhhhhhhhh'' (Some ''sample.wav''), before = w3, reply = Returned_wav v2, after = w4\<rparr>,
         \<lparr>call = Save ''test-2.wav'' v2 (sr env m w4), before = w4, reply = Returned_none, after = w5\<rparr>,
         \<lparr>call = Generate m ''Suhhhhhhhhhhhhh'' (Some ''dad_sample.wav''), before = w5, reply = Returned_wav v3, after = w6\<rparr>,
         \<lparr>call = Save ''test-3.wav'' v3 (sr env m w6), before = w6, reply = Returned_none, after = w7\<rparr>]\<rparr>)"
proof -
  obtain r1 w1 where c1: "from_pretrained env ''cuda'' w = (r1, w1)"
    by fastforce
  show thesis
  proof (cases r1)
    case (Inl e)
    with c1 show thesis
      using load_raises [of e w1] by (simp add: run_defs)
  next
    case (Inr m)
    note c1 = c1 [unfolded Inr]
    obtain r2 w2 where c2: "generate env m ''Suhhhhhhhhhhhhh'' None w1 = (r2, w2)"
      by fastforce
    show thesis
    proof (cases r2)
      case (Inl e)
      with c1 c2 show thesis
        using generate1_raises [of m w1 e w2] by (simp add: run_defs)
    next
      case (Inr v1)
      note c2 = c2 [unfolded Inr]
      obtain r3 w3 where c3: "save env ''test-1.wav'' v1 (sr env m w2) w2 = (r3, w3)"
        by fastforce
      show thesis
      proof (cases r3)
        case (Inl e)
        with c1 c2 c3 show thesis
          using save1_raises [of m w1 v1 w2 e w3] by (simp add: run_defs)
      next
        case (Inr u1)
        then have "r3 = Inr ()" by simp
        note c3 = c3 [unfolded this]
        obtain r4 w4 where
          c4: "generate env m ''Suhhhhhhhhhhhhh'' (Some ''sample.wav'') w3 = (r4, w4)"
          by fastforce
        show thesis
        proof (cases r4)
          case (Inl e)
          with c1 c2 c3 c4 show thesis
            using generate2_raises [of m w1 v1 w2 w3 e w4] by (simp add: run_defs)
        next
          case (Inr v2)
          note c4 = c4 [unfolded Inr]
          obtain r5 w5 where c5: "save env ''test-2.wav'' v2 (sr env m w4) w4 = (r5, w5)"
            by fastforce
          show thesis
          proof (cases r5)
            case (Inl e)
            with c1 c2 c3 c4 c5 show thesis
              using save2_raises [of m w1 v1 w2 w3 v2 w4 e w5] by (simp add: run_defs)
          next
            case (Inr u2)
            then have "r5 = Inr ()" by simp
            note c5 = c5 [unfolded this]
            obtain r6 w6 where
              c6: "generate env m ''Suhhhhhhhhhhhhh'' (Some ''dad_sample.wav'') w5 = (r6, w6)"
              by fastforce
            show thesis
            proof (cases r6)
              case (Inl e)
              with c1 c2 c3 c4 c5 c6 show thesis
                using generate3_raises [of m w1 v1 w2 w3 v2 w4 w5 e w6]
                by (simp add: run_defs)
            next
              case (Inr v3)
              note c6 = c6 [unfolded Inr]
              obtain r7 w7 where
                c7: "save env ''test-3.wav'' v3 (sr env m w6) w6 = (r7, w7)"
                by fastforce
              show thesis
              proof (cases r7)
                case (Inl e)
                with c1 c2 c3 c4 c5 c6 c7 show thesis
                  using save3_raises [of m w1 v1 w2 w3 v2 w4 w5 v3 w6 e w7]
                  by (simp add: run_defs)
              next
                case (Inr u3)
                then have "r7 = Inr ()" by simp
                with c1 c2 c3 c4 c5 c6 c7 show thesis
                  using completes [of m w1 v1 w2 w3 v2 w4 w5 v3 w6 w7]
                  by (simp add: run_defs)
              qed
            qed
          qed
        qed
      qed
    qed
  qed
qed

text \<open>The log of every run is faithful.\<close>

lemma events_faithful: "\<forall>ev \<in> set (events env w). faithful env ev"
proof (cases rule: run_cases [of env w])
  case c: load_raises
  from c(2) show ?thesis by (simp add: obs_defs faithful_def c(1))
next
  case c: generate1_raises
  from c(3) show ?thesis by (simp add: obs_defs faithful_def c(1,2))
next
  case c: save1_raises
  from c(4) show ?thesis by (simp add: obs_defs faithful_def c(1-3))
next
  case c: generate2_raises
  from c(5) show ?thesis by (simp add: obs_defs faithful_def c(1-4))
next
  case c: save2_raises
  from c(6) show ?thesis by (simp add: obs_defs faithful_def c(1-5))
next
  case c: generate3_raises
  from c(7) show ?thesis by (simp add: obs_defs faithful_def c(1-6))
next
  case c: save3_raises
  from c(8) show ?thesis by (simp add: obs_defs faithful_def c(1-7))
next
  case c: completes
  from c(8) show ?thesis by (simp add: obs_defs faithful_def c(1-7))
qed



subsection \<open>Files that were written stay\<close>

lemma generate_keeps:
  assumes "keeps_files file env" and "generate env m t p h = (x, h')"
  shows "file h' = file h"
proof -
  from assms(2) have "h' = snd (generate env m t p h)"
    by simp
  with assms(1) show ?thesis
    by (simp add: keeps_files_def)
qed

lemma save_keeps:
  assumes "keeps_files file env" and "save env p v r h = (x, h')" and "q \<noteq> p"
  shows "file h' q = file h q"
proof -
  from assms(2) have "h' = snd (save env p v r h)"
    by simp
  with assms(1,3) show ?thesis
    by (simp add: keeps_files_def)
qed

lemma written_files_remain:
  assumes keeps: "keeps_files file env"
  shows "\<forall>i < length (events env w).
     is_Save (call (events env w ! i)) \<and> reply (events env w ! i) = Returned_none \<longrightarrow>
     file (final_world env w) (path_of (call (events env w ! i))) =
       file (after (events env w ! i)) (path_of (call (events env w ! i)))"
proof (cases rule: run_cases [of env w])
  case load_raises
  then show ?thesis by (simp add: obs_defs)
next
  case generate1_raises
  then show ?thesis by (simp add: obs_defs less_Suc_eq)
next
  case save1_raises
  then show ?thesis by (simp add: obs_defs less_Suc_eq)
next
  case c: generate2_raises
  from c(5) show ?thesis
    by (simp add: obs_defs less_Suc_eq c(4) [THEN generate_keeps [OF keeps]])
next
  case c: save2_raises
  from c(6) show ?thesis
    by (simp add: obs_defs less_Suc_eq c(4) [THEN generate_keeps [OF keeps]]
        c(5) [THEN save_keeps [OF keeps]])
next
  case c: generate3_raises
  from c(7) show ?thesis
    by (simp add: obs_defs less_Suc_eq c(4,6) [THEN generate_keeps [OF keeps]]
        c(5) [THEN save_keeps [OF keeps]])
next
  case c: save3_raises
  from c(8) show ?thesis
    by (simp add: obs_defs less_Suc_eq c(4,6) [THEN generate_keeps [OF keeps]]
        c(5,7) [THEN save_keeps [OF keeps]])
next
  case c: completes
  from c(8) show ?thesis
    by (simp add: obs_defs less_Suc_eq c(4,6) [THEN generate_keeps [OF keeps]]
        c(5,7) [THEN save_keeps [OF keeps]])
qed

subsection \<open>Related hosts give like runs\<close>






subsection \<open>The stub on its hosts\<close>


lemma stub_keeps_files: "keeps_files (\<lambda>h. map_of (files h)) stub"
  by (simp add: keeps_files_def stub_def split: option.splits)

lemmas stub_defs =
  obs_defs run_defs stub_def studio_def studio_other_context_def laptop_def
  studio_without_dad_def


lemma stub_studio_calls:
  "calls stub studio =
     [Load ''cuda'',
      Generate 24000 ''Suhhhhhhhhhhhhh'' None, Save ''test-1.wav'' [15] 24000,
      Generate 24000 ''Suhhhhhhhhhhhhh'' (Some ''sample.wav''),
      Save ''test-2.wav'' [15, 1, 2] 24000,
      Generate 24000 ''Suhhhhhhhhhhhhh'' (Some ''dad_sample.wav''),
      Save ''test-3.wav'' [15, 3] 24000]"
  by (simp add: stub_defs)

lemma stub_studio_length: "length (events stub studio) = 7"
  by (simp add: stub_defs)

lemma stub_studio_without_dad_length: "length (events stub studio_without_dad) = 6"
  by (simp add: stub_defs)

section \<open>The claims\<close>



text \<open>
  C2. A step that raises is the last step of the run: whichever event of the log holds a
  raised error, no event follows it (so nothing is retried and nothing is substituted),
  every event before it returned, the run ends with that very error, and the world at
  the end is the world that the failing call left, the script doing nothing more to it.
  Conversely a run that ends with an error has that error in its last event. And the
  output files stay: if the libraries touch no file other than the one a persist call
  is given, then every file that a persist call wrote is, at the end of the run, as that
  call left it, however the run went on or failed afterwards.
\<close>

theorem failure_is_terminal:
  "(\<forall>i < length (events env w). \<forall>e. reply (events env w ! i) = Raised e \<longrightarrow>
      Suc i = length (events env w) \<and> outcome env w = Inl e \<and>
      final_world env w = after (events env w ! i) \<and>
      (\<forall>j < i. \<not> is_Raised (reply (events env w ! j)))) \<and>
   (\<forall>e. outcome env w = Inl e \<longrightarrow>
      events env w \<noteq> [] \<and> reply (last (events env w)) = Raised e) \<and>
   (keeps_files file env \<longrightarrow>
      (\<forall>i < length (events env w).
         is_Save (call (events env w ! i)) \<and> reply (events env w ! i) = Returned_none \<longrightarrow>
         file (final_world env w) (path_of (call (events env w ! i))) =
           file (after (events env w ! i)) (path_of (call (events env w ! i)))))"
proof -
  have "(\<forall>i < length (events env w). \<forall>e. reply (events env w ! i) = Raised e \<longrightarrow>
      Suc i = length (events env w) \<and> outcome env w = Inl e \<and>
      final_world env w = after (events env w ! i) \<and>
      (\<forall>j < i. \<not> is_Raised (reply (events env w ! j)))) \<and>
   (\<forall>e. outcome env w = Inl e \<longrightarrow>
      events env w \<noteq> [] \<and> reply (last (events env w)) = Raised e)"
    by (cases rule: run_cases [of env w]) (simp_all add: obs_defs less_Suc_eq)
  moreover have "keeps_files file env \<longrightarrow>
      (\<forall>i < length (events env w).
         is_Save (call (events env w ! i)) \<and> reply (events env w ! i) = Returned_none \<longrightarrow>
         file (final_world env w) (path_of (call (events env w ! i))) =
           file (after (events env w ! i)) (path_of (call (events env w ! i))))"
    by (rule impI) (rule written_files_remain)
  ultimately show ?thesis
    by blast
qed

theorem failure_is_terminal_witness:
  "5 < length (events stub studio_without_dad) \<and>
   reply (events stub studio_without_dad ! 5) = Raised AudioPromptError \<and>
   Suc 5 = length (events stub studio_without_dad) \<and>
   outcome stub studio_without_dad = Inl AudioPromptError \<and>
   final_world stub studio_without_dad = after (events stub studio_without_dad ! 5) \<and>
   keeps_files (\<lambda>h. map_of (files h)) stub \<and>
   call (events stub studio_without_dad ! 2) = Save ''test-1.wav'' [15] 24000 \<and>
   reply (events stub studio_without_dad ! 2) = Returned_none \<and>
   map_of (files (after (events stub studio_without_dad ! 2))) ''test-1.wav'' =
     Some [24000, 15] \<and>
   map_of (files (final_world stub studio_without_dad)) ''test-1.wav'' = Some [24000, 15]"
proof -
  note t = failure_is_terminal [of stub studio_without_dad "\<lambda>h. map_of (files h)"]
  have raised: "reply (events stub studio_without_dad ! 5) = Raised AudioPromptError"
    by (simp add: stub_defs)
  have saved: "call (events stub studio_without_dad ! 2) = Save ''test-1.wav'' [15] 24000"
    "reply (events stub studio_without_dad ! 2) = Returned_none"
    "map_of (files (after (events stub studio_without_dad ! 2))) ''test-1.wav'' =
       Some [24000, 15]"
    by (simp_all add: stub_defs)
  from t [THEN conjunct1, rule_format, of 5 AudioPromptError] raised
  have stop: "Suc 5 = length (events stub studio_without_dad)"
    "outcome stub studio_without_dad = Inl AudioPromptError"
    "final_world stub studio_without_dad = after (events stub studio_without_dad ! 5)"
    by (simp_all add: stub_studio_without_dad_length)
  from t [THEN conjunct2, THEN conjunct2, rule_format, of 2] stub_keeps_files saved
  have "map_of (files (final_world stub studio_without_dad)) ''test-1.wav'' =
      Some [24000, 15]"
    by (simp add: stub_studio_without_dad_length)
  with raised saved stop stub_keeps_files show ?thesis
    by (simp add: stub_studio_without_dad_length)
qed

text \<open>
  C3. If loading the model fails, the load is the only call of the run: no synthesis
  request, no persist call, and the world is left as the failed load left it. In every
  run a call that is not the load comes after the load, which returned a handle.
\<close>

theorem load_failure_writes_nothing:
  "(\<forall>e w1. from_pretrained env ''cuda'' w = (Inl e, w1) \<longrightarrow>
      outcome env w = Inl e \<and> calls env w = [Load ''cuda''] \<and> final_world env w = w1) \<and>
   (\<forall>i < length (events env w). \<not> is_Load (call (events env w ! i)) \<longrightarrow>
      0 < i \<and> call (events env w ! 0) = Load ''cuda'' \<and>
      (\<exists>m. reply (events env w ! 0) = Returned_model m))"
  by (cases rule: run_cases [of env w]) (simp_all add: obs_defs less_Suc_eq)

theorem load_failure_writes_nothing_witness:
  "from_pretrained stub ''cuda'' laptop = (Inl ModelLoadError, laptop) \<and>
   outcome stub laptop = Inl ModelLoadError \<and> calls stub laptop = [Load ''cuda''] \<and>
   final_world stub laptop = laptop \<and>
   1 < length (events stub studio) \<and> \<not> is_Load (call (events stub studio ! 1)) \<and>
   call (events stub studio ! 0) = Load ''cuda'' \<and>
   (\<exists>m. reply (events stub studio ! 0) = Returned_model m)"
proof -
  have fails: "from_pretrained stub ''cuda'' laptop = (Inl ModelLoadError, laptop)"
    by (simp add: stub_def laptop_def)
  with load_failure_writes_nothing [of stub laptop]
  have only_load: "outcome stub laptop = Inl ModelLoadError \<and> calls stub laptop = [Load ''cuda''] \<and>
      final_world stub laptop = laptop"
    by blast
  have later: "\<not> is_Load (call (events stub studio ! 1))"
    by (simp add: stub_defs)
  from load_failure_writes_nothing [of stub studio, THEN conjunct2, rule_format, of 1] later
  have "call (events stub studio ! 0) = Load ''cuda'' \<and>
      (\<exists>m. reply (events stub studio ! 0) = Returned_model m)"
    by (simp add: stub_studio_length)
  with fails only_load later show ?thesis
    by (simp add: stub_studio_length)
qed





text \<open>
  C6. Every synthesis request of every run carries the text \<^verbatim>\<open>"Suhhhhhhhhhhhhh"\<close>, which
  is not empty: the script never asks for the synthesis of an empty text.
\<close>

theorem text_nonempty:
  "\<forall>m t a. Generate m t a \<in> set (calls env w) \<longrightarrow> t = ''Suhhhhhhhhhhhhh'' \<and> t \<noteq> []"
  by (cases rule: run_cases [of env w]) (auto simp add: obs_defs)

theorem text_nonempty_witness:
  "Generate 24000 ''Suhhhhhhhhhhhhh'' (Some ''sample.wav'') \<in> set (calls stub studio) \<and>
   ''Suhhhhhhhhhhhhh'' \<noteq> []"
  using text_nonempty [of stub studio] stub_studio_calls
  by simp



text \<open>
  C8. The model handle comes from the one load of the run and is the same throughout:
  there is exactly one load, it is the first call; every synthesis request is made on
  the handle that this load returned, and every sample rate is read from that handle.
  The script itself changes nothing: the first call starts in the world the run started
  in, each later call starts in the world the call before it left, and the run ends in
  the world the last call left.
\<close>

theorem single_handle:
  "length (filter is_Load (calls env w)) = 1 \<and>
   is_Load (call (events env w ! 0)) \<and>
   (\<forall>i < length (events env w).
      (is_Generate (call (events env w ! i)) \<longrightarrow>
         reply (events env w ! 0) = Returned_model (handle_of (call (events env w ! i)))) \<and>
      (is_Save (call (events env w ! i)) \<longrightarrow>
         (\<exists>m. reply (events env w ! 0) = Returned_model m \<and>
              rate_of (call (events env w ! i)) = sr env m (before (events env w ! i))))) \<and>
   before (events env w ! 0) = w \<and>
   (\<forall>i. Suc i < length (events env w) \<longrightarrow>
      before (events env w ! Suc i) = after (events env w ! i)) \<and>
   final_world env w = after (last (events env w))"
  by (cases rule: run_cases [of env w]) (simp_all add: obs_defs less_Suc_eq)

theorem single_handle_witness:
  "length (filter is_Load (calls stub studio)) = 1 \<and>
   5 < length (events stub studio) \<and> is_Generate (call (events stub studio ! 5)) \<and>
   reply (events stub studio ! 0) =
     Returned_model (handle_of (call (events stub studio ! 5))) \<and>
   before (events stub studio ! 6) = after (events stub studio ! 5)"
proof -
  note t = single_handle [of stub studio]
  have g: "is_Generate (call (events stub studio ! 5))"
    by (simp add: stub_defs)
  from t have one: "length (filter is_Load (calls stub studio)) = 1"
    by (rule conjunct1)
  from t [THEN conjunct2, THEN conjunct2, THEN conjunct1, rule_format, of 5] g
  have same: "reply (events stub studio ! 0) =
      Returned_model (handle_of (call (events stub studio ! 5)))"
    by (simp add: stub_studio_length)
  from t [THEN conjunct2, THEN conjunct2, THEN conjunct2, THEN conjunct2, THEN conjunct1,
      rule_format, of 5]
  have thread: "before (events stub studio ! 6) = after (events stub studio ! 5)"
    by (simp add: stub_studio_length)
  from one g same thread show ?thesis
    by (simp add: stub_studio_length)
qed

text \<open>
  C9. The run loads once, and the device it asks for is \<^verbatim>\<open>"cuda"\<close>, never another. So
  if the loading operation keeps its contract (it fails when the host lacks the device
  asked for), then on a host without a \<^verbatim>\<open>"cuda"\<close> device the load raises, the run ends with
  that error, and the load is its only call: no synthesis, no file write.
\<close>

theorem device_is_cuda:
  assumes "\<And>d h. \<not> has_device h d \<Longrightarrow> isl (fst (from_pretrained env d h))"
  shows "length (filter is_Load (calls env w)) = 1 \<and>
    (\<forall>c \<in> set (calls env w). is_Load c \<longrightarrow> c = Load ''cuda'') \<and>
    (\<not> has_device w ''cuda'' \<longrightarrow>
       (\<exists>e. outcome env w = Inl e \<and> map reply (events env w) = [Raised e]) \<and>
       calls env w = [Load ''cuda''])"
  using assms [of w "''cuda''"]
  by (cases rule: run_cases [of env w]) (auto simp add: obs_defs)

theorem device_is_cuda_witness:
  "\<not> cuda laptop \<and>
   (\<exists>e. outcome stub laptop = Inl e \<and> map reply (events stub laptop) = [Raised e]) \<and>
   calls stub laptop = [Load ''cuda'']"
proof -
  have contract: "\<not> (d = ''cuda'' \<longrightarrow> cuda h) \<Longrightarrow> isl (fst (from_pretrained stub d h))"
    for d h
    by (simp add: stub_def)
  have none: "\<not> cuda laptop"
    by (simp add: laptop_def)
  note t = device_is_cuda [of "\<lambda>h d. d = ''cuda'' \<longrightarrow> cuda h" stub laptop, OF contract]
  from t [THEN conjunct2, THEN conjunct2] none show ?thesis
    by simp
qed



end
